theory Spec2Isabelle
  imports Complex_Main "HOL-Library.AList"
begin

section \<open>Runtime values\<close>

text \<open>
  The validator of \<^verbatim>\<open>src/schemas/response-schemas.ts\<close> receives \<^verbatim>\<open>response: any\<close>.
  The values it is applied to are response bodies: what \<^verbatim>\<open>JSON.parse\<close> yields, a raw
  text, or \<^verbatim>\<open>undefined\<close> (an index into an empty array). A number is an IEEE double;
  the code only asks whether it is a number and whether it is whole
  (\<^verbatim>\<open>Number.isInteger\<close>), so a finite number is kept as the rational it denotes, next
  to the three non-finite ones.

  An object is a plain object, as \<^verbatim>\<open>JSON.parse\<close> and object literals make them: the
  list of its own properties in the order they were created, keys distinct, and
  \<^verbatim>\<open>Object.prototype\<close> as its prototype. The members it inherits are functions, but
  for the accessor \<^verbatim>\<open>__proto__\<close>; a function is kept as the text \<^verbatim>\<open>String\<close> prints
  for it. Strings are their UTF-8 bytes.
\<close>

datatype jsnum = Finite rat | NaN | PosInfinity | NegInfinity

datatype jsval =
    JUndefined
  | JNull
  | JBool bool
  | JNum jsnum
  | JStr string
  | JArr "jsval list"
  | JObj "(string \<times> jsval) list"
  | JFunction string

datatype js_error = TypeError

text \<open>\<^verbatim>\<open>typeof value\<close>: \<^verbatim>\<open>null\<close> and arrays are \<^verbatim>\<open>'object'\<close>.\<close>

fun typeof :: "jsval \<Rightarrow> string" where
  "typeof JUndefined = ''undefined''"
| "typeof JNull = ''object''"
| "typeof (JBool b) = ''boolean''"
| "typeof (JNum n) = ''number''"
| "typeof (JStr s) = ''string''"
| "typeof (JArr xs) = ''object''"
| "typeof (JObj ps) = ''object''"
| "typeof (JFunction src) = ''function''"

text \<open>\<^verbatim>\<open>Array.isArray(value)\<close>.\<close>

fun isArray :: "jsval \<Rightarrow> bool" where
  "isArray (JArr xs) = True"
| "isArray v = False"

text \<open>\<^verbatim>\<open>Number.isInteger(value)\<close>: a finite number with no fractional part.\<close>

fun isInteger :: "jsval \<Rightarrow> bool" where
  "isInteger (JNum (Finite r)) = (of_int \<lfloor>r\<rfloor> = r)"
| "isInteger v = False"

text \<open>Decimal digits of a natural number, as \<^verbatim>\<open>String(n)\<close> prints them.\<close>

definition digit :: "nat \<Rightarrow> char" where
  "digit d = ''0123456789'' ! d"

function decimal :: "nat \<Rightarrow> string" where
  "decimal n = (if n < 10 then [digit n] else decimal (n div 10) @ [digit (n mod 10)])"
  by pat_completeness auto
termination
  by (relation "measure id") auto

declare decimal.simps [simp del]

text \<open>
  The properties of \<^verbatim>\<open>Object.prototype\<close> in Node: every plain object inherits them.
  All are methods but \<^verbatim>\<open>__proto__\<close>, an accessor that yields the prototype of the
  object it is read on, here \<^verbatim>\<open>Object.prototype\<close> itself, an object without
  enumerable properties.
\<close>

definition Object_prototype :: "(string \<times> jsval) list" where
  "Object_prototype =
     [(''constructor'', JFunction ''function Object() { [native code] }''),
      (''__defineGetter__'', JFunction ''function __defineGetter__() { [native code] }''),
      (''__defineSetter__'', JFunction ''function __defineSetter__() { [native code] }''),
      (''hasOwnProperty'', JFunction ''function hasOwnProperty() { [native code] }''),
      (''__lookupGetter__'', JFunction ''function __lookupGetter__() { [native code] }''),
      (''__lookupSetter__'', JFunction ''function __lookupSetter__() { [native code] }''),
      (''isPrototypeOf'', JFunction ''function isPrototypeOf() { [native code] }''),
      (''propertyIsEnumerable'', JFunction ''function propertyIsEnumerable() { [native code] }''),
      (''toString'', JFunction ''function toString() { [native code] }''),
      (''valueOf'', JFunction ''function valueOf() { [native code] }''),
      (''__proto__'', JObj []),
      (''toLocaleString'', JFunction ''function toLocaleString() { [native code] }'')]"

text \<open>
  The properties that \<^verbatim>\<open>in\<close> and a property read find on a plain object, along the
  prototype chain: its own, then the inherited ones.
\<close>

definition object_table :: "(string \<times> jsval) list \<Rightarrow> (string \<times> jsval) list" where
  "object_table ps = ps @ Object_prototype"

text \<open>
  The properties of a value, \<open>None\<close> when the value is not an object. An array and a
  function are objects too, and what they inherit from \<^verbatim>\<open>Array.prototype\<close> and
  \<^verbatim>\<open>Function.prototype\<close> differs between versions of the runtime: their tables are
  left open. The validator looks no property up on either: line 119 returns first.
\<close>

fun property_table :: "jsval \<Rightarrow> (string \<times> jsval) list option" where
  "property_table (JObj ps) = Some (object_table ps)"
| "property_table JUndefined = None"
| "property_table JNull = None"
| "property_table (JBool b) = None"
| "property_table (JNum n) = None"
| "property_table (JStr s) = None"

text \<open>
  \<^verbatim>\<open>key in value\<close>: on a primitive, \<^verbatim>\<open>null\<close> or \<^verbatim>\<open>undefined\<close> the operator throws
  a TypeError; on an object it finds own and inherited properties alike.
\<close>

definition has_property :: "jsval \<Rightarrow> string \<Rightarrow> js_error + bool" where
  "has_property v k =
     (case property_table v of
        None \<Rightarrow> Inl TypeError
      | Some t \<Rightarrow> Inr (k \<in> set (map fst t)))"

text \<open>
  \<^verbatim>\<open>object[key]\<close>, read from the properties of the object: the first property of that
  name, an own one before an inherited one, \<^verbatim>\<open>undefined\<close> when there is none.
\<close>

definition read_property :: "(string \<times> jsval) list \<Rightarrow> string \<Rightarrow> jsval" where
  "read_property t k = (case map_of t k of Some v \<Rightarrow> v | None \<Rightarrow> JUndefined)"

text \<open>
  \<^verbatim>\<open>Object.entries(object)\<close>: the own properties whose key is an array index (the
  decimal digits, without a leading zero, of an integer below \<open>2\<^sup>3\<^sup>2 - 1\<close>) in
  ascending numeric order, then the others in the order they were created.
\<close>

definition digit_value :: "char \<Rightarrow> nat option" where
  "digit_value =
     map_of [(CHR ''0'', 0), (CHR ''1'', 1), (CHR ''2'', 2), (CHR ''3'', 3), (CHR ''4'', 4),
             (CHR ''5'', 5), (CHR ''6'', 6), (CHR ''7'', 7), (CHR ''8'', 8), (CHR ''9'', 9)]"

fun parse_digits :: "nat \<Rightarrow> string \<Rightarrow> nat option" where
  "parse_digits n [] = Some n"
| "parse_digits n (c # cs) =
     (case digit_value c of
        None \<Rightarrow> None
      | Some d \<Rightarrow> parse_digits (10 * n + d) cs)"

fun array_index :: "string \<Rightarrow> nat option" where
  "array_index [] = None"
| "array_index (c # cs) =
     (if c = CHR ''0'' \<and> cs \<noteq> [] then None
      else case parse_digits 0 (c # cs) of
             None \<Rightarrow> None
           | Some n \<Rightarrow> if n < 4294967295 then Some n else None)"

definition index_key :: "string \<times> 'a \<Rightarrow> nat" where
  "index_key entry = (case array_index (fst entry) of None \<Rightarrow> 0 | Some n \<Rightarrow> n)"

definition Object_entries :: "(string \<times> 'a) list \<Rightarrow> (string \<times> 'a) list" where
  "Object_entries ps =
     sort_key index_key (filter (\<lambda>entry. array_index (fst entry) \<noteq> None) ps) @
     filter (\<lambda>entry. array_index (fst entry) = None) ps"

section \<open>Schemas\<close>

text \<open>
  A schema node is the object literal the source writes: \<^verbatim>\<open>type\<close>, and optionally
  \<^verbatim>\<open>properties\<close> (in the order of the literal), \<^verbatim>\<open>required\<close> and \<^verbatim>\<open>items\<close>.
  An absent field is \<open>None\<close>; a present array or object is truthy even when empty.
  The fields \<^verbatim>\<open>format\<close> and \<^verbatim>\<open>enum\<close> of some literals are read nowhere and are
  left out.
\<close>

datatype schema =
  Schema (stype: string)
         (properties: "(string \<times> schema) list option")
         (required: "string list option")
         (items: "schema option")

abbreviation leaf :: "string \<Rightarrow> schema" where
  "leaf t \<equiv> Schema t None None None"

definition CategorySchema :: schema where
  "CategorySchema =
     Schema ''object''
       (Some [(''id'', leaf ''integer''), (''name'', leaf ''string'')])
       (Some [''id'', ''name''])
       None"

text \<open>
  \<^verbatim>\<open>ImageSchema\<close>; the literals nested in it are named here so that they can be
  referred to: the element schema of \<^verbatim>\<open>breeds\<close> and the schemas of \<^verbatim>\<open>breeds\<close>,
  \<^verbatim>\<open>favourite\<close> and \<^verbatim>\<open>vote\<close>.
\<close>

definition ImageSchema_breeds_items :: schema where
  "ImageSchema_breeds_items =
     Schema ''object''
       (Some
         [(''id'', leaf ''string''),
          (''name'', leaf ''string''),
          (''temperament'', leaf ''string''),
          (''origin'', leaf ''string''),
          (''country_codes'', leaf ''string''),
          (''life_span'', leaf ''string''),
          (''weight'',
             Schema ''object''
               (Some [(''imperial'', leaf ''string''), (''metric'', leaf ''string'')])
               None None)])
       None None"

definition ImageSchema_breeds :: schema where
  "ImageSchema_breeds = Schema ''array'' None None (Some ImageSchema_breeds_items)"

definition ImageSchema_favourite :: schema where
  "ImageSchema_favourite =
     Schema ''object''
       (Some
         [(''id'', leaf ''integer''),
          (''user_id'', leaf ''string''),
          (''image_id'', leaf ''string''),
          (''created_at'', leaf ''string'')])
       None None"

definition ImageSchema_vote :: schema where
  "ImageSchema_vote =
     Schema ''object''
       (Some
         [(''id'', leaf ''integer''),
          (''user_id'', leaf ''string''),
          (''image_id'', leaf ''string''),
          (''created_at'', leaf ''string''),
          (''value'', leaf ''integer'')])
       None None"

definition ImageSchema :: schema where
  "ImageSchema =
     Schema ''object''
       (Some
         [(''id'', leaf ''string''),
          (''url'', leaf ''string''),
          (''width'', leaf ''integer''),
          (''height'', leaf ''integer''),
          (''breeds'', ImageSchema_breeds),
          (''favourite'', ImageSchema_favourite),
          (''vote'', ImageSchema_vote)])
       (Some [''id'', ''url'', ''width'', ''height''])
       None"

section \<open>The validator\<close>

text \<open>
  Each function body runs on its frame: the two arguments and the local array
  \<^verbatim>\<open>errors\<close>. A statement is a frame transformer, so that a write to any of the three
  would show in the frame the body ends in. The only writes of the source are
  \<^verbatim>\<open>errors.push\<close>.
\<close>

record frame =
  fr_value :: jsval
  fr_schema :: schema
  fr_errors :: "string list"

record validation_result =
  valid :: bool
  errors :: "string list"

datatype 'a outcome = Normal 'a frame | Threw js_error frame

fun final_frame :: "'a outcome \<Rightarrow> frame" where
  "final_frame (Normal r fr) = fr"
| "final_frame (Threw e fr) = fr"

text \<open>\<^verbatim>\<open>errors.push(msg)\<close> and \<^verbatim>\<open>errors.push(...msgs)\<close>.\<close>

definition push :: "string \<Rightarrow> frame \<Rightarrow> frame" where
  "push msg fr = fr\<lparr>fr_errors := fr_errors fr @ [msg]\<rparr>"

definition push_all :: "string list \<Rightarrow> frame \<Rightarrow> frame" where
  "push_all msgs fr = fr\<lparr>fr_errors := fr_errors fr @ msgs\<rparr>"

text \<open>The body of \<^verbatim>\<open>validateProperty(value, schema)\<close>: one \<^verbatim>\<open>if / else if\<close> chain.\<close>

definition validateProperty_body :: "frame \<Rightarrow> frame" where
  "validateProperty_body fr =
     (if stype (fr_schema fr) = ''string'' \<and> typeof (fr_value fr) \<noteq> ''string'' then
        push (''Expected string but got '' @ typeof (fr_value fr)) fr
      else if stype (fr_schema fr) = ''integer'' \<and> \<not> isInteger (fr_value fr) then
        push (''Expected integer but got '' @ typeof (fr_value fr)) fr
      else if stype (fr_schema fr) = ''number'' \<and> typeof (fr_value fr) \<noteq> ''number'' then
        push (''Expected number but got '' @ typeof (fr_value fr)) fr
      else if stype (fr_schema fr) = ''array'' \<and> \<not> isArray (fr_value fr) then
        push (''Expected array but got '' @ typeof (fr_value fr)) fr
      else fr)"

definition validateProperty :: "jsval \<Rightarrow> schema \<Rightarrow> string list" where
  "validateProperty value schema =
     fr_errors (validateProperty_body \<lparr>fr_value = value, fr_schema = schema, fr_errors = []\<rparr>)"

text \<open>
  \<^verbatim>\<open>for (const field of schema.required) if (!(field in response)) errors.push(...)\<close>
\<close>

fun required_loop :: "string list \<Rightarrow> frame \<Rightarrow> unit outcome" where
  "required_loop [] fr = Normal () fr"
| "required_loop (field # rest) fr =
     (case has_property (fr_value fr) field of
        Inl e \<Rightarrow> Threw e fr
      | Inr present \<Rightarrow>
          required_loop rest
            (if \<not> present then push (''Missing required field: '' @ field) fr else fr))"

text \<open>
  \<^verbatim>\<open>for (const [key, propSchema] of Object.entries(schema.properties))\<close>
  \<^verbatim>\<open>  if (key in response) errors.push(...validateProperty(response[key], propSchema))\<close>

  \<^verbatim>\<open>response[key]\<close> is read only after \<^verbatim>\<open>key in response\<close> has returned true, that
  is on an object, and from the same properties.
\<close>

fun properties_loop :: "(string \<times> schema) list \<Rightarrow> frame \<Rightarrow> unit outcome" where
  "properties_loop [] fr = Normal () fr"
| "properties_loop ((key, propSchema) # rest) fr =
     (case property_table (fr_value fr) of
        None \<Rightarrow> Threw TypeError fr
      | Some t \<Rightarrow>
          properties_loop rest
            (if key \<in> set (map fst t)
             then push_all (validateProperty (read_property t key) propSchema) fr
             else fr))"

text \<open>The body of \<^verbatim>\<open>validateAgainstSchema(response, schema)\<close>.\<close>

definition check_required :: "frame \<Rightarrow> unit outcome" where
  "check_required fr =
     (case required (fr_schema fr) of
        None \<Rightarrow> Normal () fr
      | Some names \<Rightarrow> required_loop names fr)"

definition check_properties :: "frame \<Rightarrow> unit outcome" where
  "check_properties fr =
     (case properties (fr_schema fr) of
        None \<Rightarrow> Normal () fr
      | Some entries \<Rightarrow> properties_loop (Object_entries entries) fr)"

definition return_result :: "frame \<Rightarrow> validation_result outcome" where
  "return_result fr = Normal \<lparr>valid = (length (fr_errors fr) = 0), errors = fr_errors fr\<rparr> fr"

definition validateAgainstSchema_body :: "frame \<Rightarrow> validation_result outcome" where
  "validateAgainstSchema_body fr =
     (if stype (fr_schema fr) = ''object'' then
        if typeof (fr_value fr) \<noteq> ''object'' \<or> isArray (fr_value fr) then
          (let fr1 = push (''Expected object but got '' @ typeof (fr_value fr)) fr
           in Normal \<lparr>valid = False, errors = fr_errors fr1\<rparr> fr1)
        else
          (case check_required fr of
             Threw e fr1 \<Rightarrow> Threw e fr1
           | Normal u fr1 \<Rightarrow>
               (case check_properties fr1 of
                  Threw e fr2 \<Rightarrow> Threw e fr2
                | Normal u fr2 \<Rightarrow> return_result fr2))
      else return_result fr)"

definition validateAgainstSchema :: "jsval \<Rightarrow> schema \<Rightarrow> js_error + validation_result" where
  "validateAgainstSchema response schema =
     (case validateAgainstSchema_body \<lparr>fr_value = response, fr_schema = schema, fr_errors = []\<rparr> of
        Normal r fr \<Rightarrow> Inr r
      | Threw e fr \<Rightarrow> Inl e)"

section \<open>The request client\<close>

text \<open>
  \<^verbatim>\<open>src/utils/api-client.ts\<close>. \<^verbatim>\<open>String(value)\<close> prints the shortest digits that
  read back as the same double. For a whole number below \<open>2\<^sup>5\<^sup>3\<close> in magnitude these
  are its decimal digits: the doubles there are at most 1 apart, so no other whole
  number reads back as it. For any other finite double the digits depend on the
  rounding of doubles: that is floating point, and is taken as the parameter \<open>repr\<close>.
\<close>

definition join :: "string \<Rightarrow> string list \<Rightarrow> string" where
  "join sep xs = (case xs of [] \<Rightarrow> [] | y # ys \<Rightarrow> y @ concat (map (\<lambda>z. sep @ z) ys))"

fun number_to_string :: "(rat \<Rightarrow> string) \<Rightarrow> jsnum \<Rightarrow> string" where
  "number_to_string repr (Finite r) =
     (if of_int \<lfloor>r\<rfloor> = r \<and> \<bar>r\<bar> < 2 ^ 53
      then (if r < 0 then ''-'' else []) @ decimal (nat \<bar>\<lfloor>r\<rfloor>\<bar>)
      else repr r)"
| "number_to_string repr NaN = ''NaN''"
| "number_to_string repr PosInfinity = ''Infinity''"
| "number_to_string repr NegInfinity = ''-Infinity''"

text \<open>
  \<^verbatim>\<open>String(value)\<close>. An array prints its elements joined by commas, \<^verbatim>\<open>null\<close> and
  \<^verbatim>\<open>undefined\<close> elements as the empty string; a plain object prints
  \<^verbatim>\<open>[object Object]\<close>.
\<close>

fun js_String :: "(rat \<Rightarrow> string) \<Rightarrow> jsval \<Rightarrow> string" where
  "js_String repr JUndefined = ''undefined''"
| "js_String repr JNull = ''null''"
| "js_String repr (JBool b) = (if b then ''true'' else ''false'')"
| "js_String repr (JNum n) = number_to_string repr n"
| "js_String repr (JStr s) = s"
| "js_String repr (JArr xs) =
     join '',''
       (map (\<lambda>x. if x = JUndefined \<or> x = JNull then [] else js_String repr x) xs)"
| "js_String repr (JObj ps) = ''[object Object]''"
| "js_String repr (JFunction src) = src"

text \<open>
  \<^verbatim>\<open>URLSearchParams.toString()\<close>: the \<^verbatim>\<open>application/x-www-form-urlencoded\<close>
  serializer. A byte among \<^verbatim>\<open>*-._\<close>, the digits and the ASCII letters stays, a space
  becomes \<^verbatim>\<open>+\<close>, any other byte becomes \<^verbatim>\<open>%XX\<close> in upper-case hexadecimal.
\<close>

definition urlencoded_safe :: string where
  "urlencoded_safe =
     ''*-._0123456789ABCDEFGHIJKLMNOPQRSTUVWXYZabcdefghijklmnopqrstuvwxyz''"

definition hex_digit :: "nat \<Rightarrow> char" where
  "hex_digit d = ''0123456789ABCDEF'' ! d"

definition urlencode_byte :: "char \<Rightarrow> string" where
  "urlencode_byte c =
     (if c \<in> set urlencoded_safe then [c]
      else if c = CHR '' '' then ''+''
      else [CHR ''%'', hex_digit (of_char c div 16), hex_digit (of_char c mod 16)])"

definition urlencode :: "string \<Rightarrow> string" where
  "urlencode s = concat (map urlencode_byte s)"

definition URLSearchParams_toString :: "(string \<times> string) list \<Rightarrow> string" where
  "URLSearchParams_toString q = join ''&'' (map (\<lambda>(k, v). urlencode k @ ''='' @ urlencode v) q)"

text \<open>\<^verbatim>\<open>API_CONFIG\<close> of \<^verbatim>\<open>src/config/api.config.ts\<close>; the key comes from the environment.\<close>

definition API_CONFIG_baseURL :: string where
  "API_CONFIG_baseURL = ''https://api.thecatapi.com/v1''"

definition API_CONFIG_apiKey :: "string option \<Rightarrow> string" where
  "API_CONFIG_apiKey env_CAT_API_KEY =
     (case env_CAT_API_KEY of
        None \<Rightarrow> ''DEMO-API-KEY''
      | Some k \<Rightarrow> if k = [] then ''DEMO-API-KEY'' else k)"

definition API_CONFIG_headers :: "(string \<times> string) list" where
  "API_CONFIG_headers =
     [(''Content-Type'', ''application/json''), (''Accept'', ''application/json'')]"

text \<open>Object spread \<^verbatim>\<open>{...a, ...b}\<close>: \<open>b\<close> wins on a key of both, which keeps its place.\<close>

definition spread :: "(string \<times> string) list \<Rightarrow> (string \<times> string) list \<Rightarrow> (string \<times> string) list" where
  "spread a b = fold (\<lambda>(k, v). AList.update k v) b a"

record APIClient =
  baseURL :: string
  apiKey :: string
  defaultHeaders :: "(string \<times> string) list"

definition new_APIClient :: "string option \<Rightarrow> string option \<Rightarrow> APIClient" where
  "new_APIClient env_CAT_API_KEY key =
     (let k = (case key of
                 None \<Rightarrow> API_CONFIG_apiKey env_CAT_API_KEY
               | Some k' \<Rightarrow> if k' = [] then API_CONFIG_apiKey env_CAT_API_KEY else k')
      in \<lparr>baseURL = API_CONFIG_baseURL,
          apiKey = k,
          defaultHeaders = spread API_CONFIG_headers [(''x-api-key'', k)]\<rparr>)"

text \<open>
  \<^verbatim>\<open>Object.entries(params).forEach(([key, value]) => { if (value !== undefined && value !== null)\<close>
  \<^verbatim>\<open>  queryParams.append(key, String(value)) })\<close>, on the list \<open>q\<close> of pairs appended so far.
\<close>

fun append_params ::
  "(rat \<Rightarrow> string) \<Rightarrow> (string \<times> jsval) list \<Rightarrow> (string \<times> string) list \<Rightarrow> (string \<times> string) list" where
  "append_params repr [] q = q"
| "append_params repr ((key, value) # rest) q =
     append_params repr rest
       (if value \<noteq> JUndefined \<and> value \<noteq> JNull then q @ [(key, js_String repr value)] else q)"

text \<open>
  The \<^verbatim>\<open>queryParams\<close> that \<^verbatim>\<open>buildUrl\<close> has collected when it calls \<^verbatim>\<open>toString\<close>.
  \<^verbatim>\<open>if (apiKey)\<close> fails on \<^verbatim>\<open>undefined\<close> and on the empty string; \<^verbatim>\<open>if (params)\<close>
  fails on \<^verbatim>\<open>undefined\<close> only. \<^verbatim>\<open>params\<close> is the object the caller wrote, its
  properties in the order they were created.
\<close>

definition queryParams ::
  "(rat \<Rightarrow> string) \<Rightarrow> (string \<times> jsval) list option \<Rightarrow> string option \<Rightarrow> (string \<times> string) list" where
  "queryParams repr params key =
     (let q1 = (case key of
                  None \<Rightarrow> []
                | Some k \<Rightarrow> if k \<noteq> [] then [(''api_key'', k)] else [])
      in case params of
           None \<Rightarrow> q1
         | Some entries \<Rightarrow> append_params repr (Object_entries entries) q1)"

definition buildUrl ::
  "(rat \<Rightarrow> string) \<Rightarrow> APIClient \<Rightarrow> string \<Rightarrow> (string \<times> jsval) list option \<Rightarrow> string option \<Rightarrow> string" where
  "buildUrl repr this endpoint params key =
     (let baseUrl = baseURL this @ endpoint;
          queryString = URLSearchParams_toString (queryParams repr params key)
      in if queryString \<noteq> [] then baseUrl @ ''?'' @ queryString else baseUrl)"

text \<open>
  The transport is Playwright's \<^verbatim>\<open>APIRequestContext\<close>, imported from
  \<^verbatim>\<open>@playwright/test\<close>: \<^verbatim>\<open>fetch\<close> is a parameter of the model, and a response is
  what its accessors return. \<^verbatim>\<open>json()\<close> and \<^verbatim>\<open>text()\<close> may reject. Console output
  is not modelled.
\<close>

datatype transport_error = TransportError string

record transport_response =
  t_status :: int
  t_statusText :: string
  t_headers :: "(string \<times> string) list"
  t_json :: "transport_error + jsval"
  t_text :: "transport_error + string"

text \<open>
  Modelled from the spec: the accessor \<^verbatim>\<open>ok()\<close> of the transport's response
  (Playwright's \<^verbatim>\<open>APIResponse\<close>, not under \<^verbatim>\<open>src/\<close>). The spec derives the flag from
  the status: \<^verbatim>\<open>ok\<close> is exactly \<^verbatim>\<open>200 <= status < 300\<close>.
\<close>

definition t_ok :: "transport_response \<Rightarrow> bool" where
  "t_ok response = (200 \<le> t_status response \<and> t_status response < 300)"

record RequestOptions =
  opt_method :: string
  opt_endpoint :: string
  opt_headers :: "(string \<times> string) list option"
  opt_data :: "(string \<times> jsval) list option"
  opt_params :: "(string \<times> jsval) list option"
  opt_apiKey :: "string option"

record fetch_request =
  req_url :: string
  req_method :: string
  req_headers :: "(string \<times> string) list"
  req_data :: "(string \<times> jsval) list option"

record ApiResponse =
  status :: int
  statusText :: string
  headers :: "(string \<times> string) list"
  body :: jsval
  ok :: bool

text \<open>\<^verbatim>\<open>haystack.includes(needle)\<close>.\<close>

fun starts_with :: "string \<Rightarrow> string \<Rightarrow> bool" where
  "starts_with s [] = True"
| "starts_with [] (c # cs) = False"
| "starts_with (d # ds) (c # cs) = (d = c \<and> starts_with ds cs)"

fun string_includes :: "string \<Rightarrow> string \<Rightarrow> bool" where
  "string_includes [] needle = (needle = [])"
| "string_includes (c # cs) needle = (starts_with (c # cs) needle \<or> string_includes cs needle)"

text \<open>
  \<^verbatim>\<open>parseResponseBody\<close>: JSON when the content type says so, an empty object when the
  JSON does not parse, the raw text otherwise.
\<close>

definition parseResponseBody :: "transport_response \<Rightarrow> transport_error + jsval" where
  "parseResponseBody response =
     (let contentType = (case map_of (t_headers response) ''content-type'' of
                           None \<Rightarrow> []
                         | Some h \<Rightarrow> h)
      in if string_includes contentType ''application/json'' then
           (case t_json response of Inl e \<Rightarrow> Inr (JObj []) | Inr v \<Rightarrow> Inr v)
         else
           (case t_text response of Inl e \<Rightarrow> Inl e | Inr s \<Rightarrow> Inr (JStr s)))"

text \<open>
  \<^verbatim>\<open>makeRequest\<close>: a failure of the transport is rethrown. The body is handed to the
  transport as it is given (\<^verbatim>\<open>JSON.stringify\<close> is the transport's concern here; an
  absent \<^verbatim>\<open>data\<close> stays absent).
\<close>

definition makeRequest ::
  "(rat \<Rightarrow> string) \<Rightarrow> (fetch_request \<Rightarrow> transport_error + transport_response) \<Rightarrow>
   APIClient \<Rightarrow> RequestOptions \<Rightarrow> transport_error + ApiResponse" where
  "makeRequest repr fetch this options =
     (let url = buildUrl repr this (opt_endpoint options) (opt_params options) (opt_apiKey options);
          requestHeaders =
            spread (defaultHeaders this)
              (case opt_headers options of None \<Rightarrow> [] | Some h \<Rightarrow> h)
      in case fetch \<lparr>req_url = url, req_method = opt_method options,
                     req_headers = requestHeaders, req_data = opt_data options\<rparr> of
           Inl e \<Rightarrow> Inl e
         | Inr response \<Rightarrow>
             (case parseResponseBody response of
                Inl e \<Rightarrow> Inl e
              | Inr responseBody \<Rightarrow>
                  Inr \<lparr>status = t_status response,
                       statusText = t_statusText response,
                       headers = t_headers response,
                       body = responseBody,
                       ok = t_ok response\<rparr>))"

definition get ::
  "(rat \<Rightarrow> string) \<Rightarrow> (fetch_request \<Rightarrow> transport_error + transport_response) \<Rightarrow>
   APIClient \<Rightarrow> string \<Rightarrow> (string \<times> jsval) list option \<Rightarrow> string option \<Rightarrow>
   transport_error + ApiResponse" where
  "get repr fetch this endpoint params key =
     makeRequest repr fetch this
       \<lparr>opt_method = ''GET'', opt_endpoint = endpoint, opt_headers = None,
        opt_data = None, opt_params = params, opt_apiKey = key\<rparr>"

text \<open>
  \<^verbatim>\<open>ApiAssertions.assertSuccess\<close> of \<^verbatim>\<open>src/utils/assertions.ts\<close>: three
  expectations in a row, the first that fails throws.
\<close>

datatype assertion_error = AssertionError

definition assertSuccess :: "ApiResponse \<Rightarrow> assertion_error + unit" where
  "assertSuccess response =
     (if ok response \<noteq> True then Inl AssertionError
      else if \<not> status response \<ge> 200 then Inl AssertionError
      else if \<not> status response < 300 then Inl AssertionError
      else Inr ())"

section \<open>The words of the specification\<close>

text \<open>
  The runtime kinds the specification names for the primitive tags: a string, a
  whole-number numeric, a numeric, a boolean.
\<close>

fun is_string :: "jsval \<Rightarrow> bool" where
  "is_string (JStr s) = True"
| "is_string v = False"

fun is_number :: "jsval \<Rightarrow> bool" where
  "is_number (JNum n) = True"
| "is_number v = False"

fun is_boolean :: "jsval \<Rightarrow> bool" where
  "is_boolean (JBool b) = True"
| "is_boolean v = False"

fun is_whole_number :: "jsval \<Rightarrow> bool" where
  "is_whole_number (JNum (Finite r)) = (of_int \<lfloor>r\<rfloor> = r)"
| "is_whole_number v = False"

definition spec_kind_matches :: "string \<Rightarrow> jsval \<Rightarrow> bool" where
  "spec_kind_matches tag v =
     (if tag = ''string'' then is_string v
      else if tag = ''integer'' then is_whole_number v
      else if tag = ''number'' then is_number v
      else if tag = ''boolean'' then is_boolean v
      else True)"

text \<open>
  Conformance of a value to a schema, as the specification's algorithm decides it
  (section 4.2): an object-tagged schema wants a non-array object that has every
  required name and whose present declared properties conform; an array-tagged one
  wants an array whose elements conform to the element schema when one is declared; a
  primitive tag wants a value of that kind. The specification's object is a mapping:
  a name is present when it is a key of the mapping.
\<close>

fun spec_conforms :: "jsval \<Rightarrow> schema \<Rightarrow> bool" where
  "spec_conforms v (Schema t props req its) =
     (if t = ''object'' then
        (case v of
           JObj ps \<Rightarrow>
             list_all (\<lambda>f. f \<in> set (map fst ps)) (case req of None \<Rightarrow> [] | Some names \<Rightarrow> names) \<and>
             (case props of
                None \<Rightarrow> True
              | Some entries \<Rightarrow>
                  list_all
                    (\<lambda>(k, cs). k \<in> set (map fst ps) \<longrightarrow> spec_conforms (read_property ps k) cs)
                    entries)
         | _ \<Rightarrow> False)
      else if t = ''array'' then
        (case v of
           JArr xs \<Rightarrow>
             (case its of None \<Rightarrow> True | Some cs \<Rightarrow> list_all (\<lambda>x. spec_conforms x cs) xs)
         | _ \<Rightarrow> False)
      else spec_kind_matches t v)"

text \<open>
  The messages for the required names that are not among the properties \<open>t\<close>, in the
  order of the names.
\<close>

definition missing_field_errors :: "(string \<times> jsval) list \<Rightarrow> string list \<Rightarrow> string list" where
  "missing_field_errors t names =
     map (\<lambda>f. ''Missing required field: '' @ f) (filter (\<lambda>f. f \<notin> set (map fst t)) names)"

text \<open>
  The messages of the declared properties that are among the properties \<open>t\<close>, each
  checked by \<^verbatim>\<open>validateProperty\<close>, in the order of the declarations given.
\<close>

definition property_errors :: "(string \<times> jsval) list \<Rightarrow> (string \<times> schema) list \<Rightarrow> string list" where
  "property_errors t entries =
     concat (map (\<lambda>(k, cs). if k \<in> set (map fst t) then validateProperty (read_property t k) cs else [])
               entries)"

definition entries_of :: "'a list option \<Rightarrow> 'a list" where
  "entries_of field = (case field of None \<Rightarrow> [] | Some xs \<Rightarrow> xs)"

section \<open>The loops of the validator in closed form\<close>

lemma validateProperty_eq:
  "validateProperty v s =
     (if stype s = ''string'' \<and> typeof v \<noteq> ''string'' then [''Expected string but got '' @ typeof v]
      else if stype s = ''integer'' \<and> \<not> isInteger v then [''Expected integer but got '' @ typeof v]
      else if stype s = ''number'' \<and> typeof v \<noteq> ''number'' then [''Expected number but got '' @ typeof v]
      else if stype s = ''array'' \<and> \<not> isArray v then [''Expected array but got '' @ typeof v]
      else [])"
  by (simp add: validateProperty_def validateProperty_body_def push_def)

lemma validateProperty_tag_only:
  "validateProperty v (Schema t p r i) = validateProperty v (leaf t)"
  by (simp add: validateProperty_eq)

lemma required_loop_object:
  "property_table (fr_value fr) = Some t \<Longrightarrow>
   required_loop names fr =
     Normal () (fr\<lparr>fr_errors := fr_errors fr @ missing_field_errors t names\<rparr>)"
  by (induction names arbitrary: fr)
     (simp_all add: has_property_def push_def missing_field_errors_def)

lemma properties_loop_object:
  "property_table (fr_value fr) = Some t \<Longrightarrow>
   properties_loop entries fr =
     Normal () (fr\<lparr>fr_errors := fr_errors fr @ property_errors t entries\<rparr>)"
  by (induction entries arbitrary: fr) (auto simp add: push_all_def property_errors_def)

lemma validateAgainstSchema_object:
  assumes "stype s = ''object''"
  shows "validateAgainstSchema (JObj ps) s =
           Inr \<lparr>valid = (missing_field_errors (object_table ps) (entries_of (required s)) @
                             property_errors (object_table ps)
                               (Object_entries (entries_of (properties s))) = []),
                errors = missing_field_errors (object_table ps) (entries_of (required s)) @
                           property_errors (object_table ps)
                             (Object_entries (entries_of (properties s)))\<rparr>"
proof -
  let ?m = "missing_field_errors (object_table ps) (entries_of (required s))"
  let ?p = "property_errors (object_table ps) (Object_entries (entries_of (properties s)))"
  have empty: "property_errors (object_table ps) (Object_entries []) = []"
    by (simp add: property_errors_def Object_entries_def)
  have req: "check_required \<lparr>fr_value = JObj ps, fr_schema = s, fr_errors = []\<rparr> =
      Normal () \<lparr>fr_value = JObj ps, fr_schema = s, fr_errors = ?m\<rparr>"
    by (cases "required s")
       (simp_all add: check_required_def entries_of_def missing_field_errors_def
          required_loop_object [where t = "object_table ps"])
  have props: "check_properties \<lparr>fr_value = JObj ps, fr_schema = s, fr_errors = ?m\<rparr> =
      Normal () \<lparr>fr_value = JObj ps, fr_schema = s, fr_errors = ?m @ ?p\<rparr>"
    by (cases "properties s")
       (simp_all add: check_properties_def entries_of_def empty
          properties_loop_object [where t = "object_table ps"])
  show ?thesis
    using assms
    by (simp add: validateAgainstSchema_def validateAgainstSchema_body_def req props
        return_result_def)
qed

text \<open>
  The guard of line 119 lets through \<^verbatim>\<open>null\<close> and plain objects only; every other
  value, arrays and functions among them, is answered before any property is looked
  up.
\<close>

lemma guard_passes:
  "typeof v = ''object'' \<and> \<not> isArray v \<longleftrightarrow> v = JNull \<or> (\<exists>ps. v = JObj ps)"
  by (cases v) auto

lemma validateAgainstSchema_rejected:
  assumes "stype s = ''object''"
    and "typeof v \<noteq> ''object'' \<or> isArray v"
  shows "validateAgainstSchema v s =
           Inr \<lparr>valid = False, errors = [''Expected object but got '' @ typeof v]\<rparr>"
  using assms
  by (auto simp add: validateAgainstSchema_def validateAgainstSchema_body_def push_def Let_def)

subsection \<open>Names and enumeration order\<close>

lemma inherited_names:
  "map fst Object_prototype =
     [''constructor'', ''__defineGetter__'', ''__defineSetter__'', ''hasOwnProperty'',
      ''__lookupGetter__'', ''__lookupSetter__'', ''isPrototypeOf'', ''propertyIsEnumerable'',
      ''toString'', ''valueOf'', ''__proto__'', ''toLocaleString'']"
  by (simp add: Object_prototype_def)

lemma has_property_object:
  "has_property (JObj ps) k = Inr (k \<in> set (map fst (object_table ps)))"
  by (simp add: has_property_def)

lemma object_table_names:
  "k \<in> set (map fst (object_table ps)) \<longleftrightarrow>
     k \<in> set (map fst ps) \<or> k \<in> set (map fst Object_prototype)"
  by (auto simp add: object_table_def)

lemma read_own_property:
  "map_of ps k = Some v \<Longrightarrow> read_property (object_table ps) k = v"
  by (simp add: read_property_def object_table_def map_add_def)

lemma array_index_name:
  "digit_value c = None \<Longrightarrow> array_index (c # cs) = None"
  by (cases "c = CHR ''0''") (auto simp add: digit_value_def)

lemma Object_entries_names:
  "\<forall>entry \<in> set ps. array_index (fst entry) = None \<Longrightarrow> Object_entries ps = ps"
  by (simp add: Object_entries_def filter_id_conv filter_empty_conv)

lemma set_Object_entries:
  "set (Object_entries ps) = set ps"
  by (auto simp add: Object_entries_def)

lemma Object_entries_CategorySchema:
  "Object_entries [(''id'', leaf ''integer''), (''name'', leaf ''string'')] =
     [(''id'', leaf ''integer''), (''name'', leaf ''string'')]"
  by (rule Object_entries_names) (simp add: array_index_name digit_value_def)

subsection \<open>Declared properties\<close>

text \<open>
  C1, as the code has it. For an object-tagged schema and an object, the result holds
  the messages of the missing required names followed, for every declared property
  that \<^verbatim>\<open>in\<close> finds on the object (an own property or one inherited from
  \<^verbatim>\<open>Object.prototype\<close>), in \<^verbatim>\<open>Object.entries\<close> order of the declarations, by the
  messages of \<^verbatim>\<open>validateProperty\<close> on the property's value, unprefixed. That check
  is one level deep: it looks at the declared property's tag only, never at its
  \<^verbatim>\<open>required\<close>, \<^verbatim>\<open>properties\<close> or \<^verbatim>\<open>items\<close>.
\<close>

theorem C1_properties_checked_one_level:
  assumes "stype s = ''object''"
  shows "validateAgainstSchema (JObj ps) s =
           Inr \<lparr>valid = (missing_field_errors (object_table ps) (entries_of (required s)) @
                             property_errors (object_table ps)
                               (Object_entries (entries_of (properties s))) = []),
                errors = missing_field_errors (object_table ps) (entries_of (required s)) @
                           property_errors (object_table ps)
                             (Object_entries (entries_of (properties s)))\<rparr> \<and>
         (\<forall>v t p r i. validateProperty v (Schema t p r i) = validateProperty v (leaf t))"
proof (intro conjI allI)
  show "validateAgainstSchema (JObj ps) s =
           Inr \<lparr>valid = (missing_field_errors (object_table ps) (entries_of (required s)) @
                             property_errors (object_table ps)
                               (Object_entries (entries_of (properties s))) = []),
                errors = missing_field_errors (object_table ps) (entries_of (required s)) @
                           property_errors (object_table ps)
                             (Object_entries (entries_of (properties s)))\<rparr>"
    using assms by (rule validateAgainstSchema_object)
next
  fix v t p r i
  show "validateProperty v (Schema t p r i) = validateProperty v (leaf t)"
    by (rule validateProperty_tag_only)
qed

theorem C1_witness:
  "validateAgainstSchema
     (JObj [(''id'', JStr ''seven''), (''extra'', JNull)]) CategorySchema =
     Inr \<lparr>valid = False,
          errors = [''Missing required field: name'', ''Expected integer but got string'']\<rparr> \<and>
   validateAgainstSchema (JObj [(''id'', JNum (Finite 1))])
     (Schema ''object'' (Some [(''id'', leaf ''integer''), (''toString'', leaf ''string'')])
        None None) =
     Inr \<lparr>valid = False, errors = [''Expected string but got function'']\<rparr>"
proof -
  have 1: "validateAgainstSchema
     (JObj [(''id'', JStr ''seven''), (''extra'', JNull)]) CategorySchema =
     Inr \<lparr>valid = False,
          errors = [''Missing required field: name'', ''Expected integer but got string'']\<rparr>"
    using C1_properties_checked_one_level
      [of CategorySchema "[(''id'', JStr ''seven''), (''extra'', JNull)]"]
    by (simp add: CategorySchema_def entries_of_def Object_entries_CategorySchema
        missing_field_errors_def property_errors_def object_table_def Object_prototype_def
        read_property_def validateProperty_eq)
  have 2: "validateAgainstSchema (JObj [(''id'', JNum (Finite 1))])
     (Schema ''object'' (Some [(''id'', leaf ''integer''), (''toString'', leaf ''string'')])
        None None) =
     Inr \<lparr>valid = False, errors = [''Expected string but got function'']\<rparr>"
    using C1_properties_checked_one_level
      [of "Schema ''object'' (Some [(''id'', leaf ''integer''), (''toString'', leaf ''string'')])
             None None"
          "[(''id'', JNum (Finite 1))]"]
    by (simp add: entries_of_def Object_entries_names array_index_name digit_value_def
        missing_field_errors_def property_errors_def object_table_def Object_prototype_def
        read_property_def validateProperty_eq)
  from 1 2 show ?thesis by blast
qed

text \<open>
  C1 as the specification states it fails on \<^verbatim>\<open>ImageSchema\<close>: the value of
  \<^verbatim>\<open>favourite\<close>, validated against the schema declared for it, has an error, and the
  image that holds it is reported valid, with no error.
\<close>

theorem C1_counterexample:
  "map_of (entries_of (properties ImageSchema)) ''favourite'' = Some ImageSchema_favourite \<and>
   validateAgainstSchema (JObj [(''id'', JStr ''x'')]) ImageSchema_favourite =
     Inr \<lparr>valid = False, errors = [''Expected integer but got string'']\<rparr> \<and>
   validateAgainstSchema
     (JObj [(''id'', JStr ''abc''), (''url'', JStr ''https://cdn2.thecatapi.com/images/abc.jpg''),
            (''width'', JNum (Finite 640)), (''height'', JNum (Finite 480)),
            (''favourite'', JObj [(''id'', JStr ''x'')])])
     ImageSchema =
     Inr \<lparr>valid = True, errors = []\<rparr>"
proof -
  have 1: "map_of (entries_of (properties ImageSchema)) ''favourite'' = Some ImageSchema_favourite"
    by (simp add: ImageSchema_def entries_of_def)
  have 2: "validateAgainstSchema (JObj [(''id'', JStr ''x'')]) ImageSchema_favourite =
     Inr \<lparr>valid = False, errors = [''Expected integer but got string'']\<rparr>"
    by (simp add: validateAgainstSchema_object validateProperty_eq ImageSchema_favourite_def
        entries_of_def Object_entries_names array_index_name digit_value_def
        missing_field_errors_def property_errors_def object_table_def Object_prototype_def
        read_property_def)
  have 3: "validateAgainstSchema
     (JObj [(''id'', JStr ''abc''), (''url'', JStr ''https://cdn2.thecatapi.com/images/abc.jpg''),
            (''width'', JNum (Finite 640)), (''height'', JNum (Finite 480)),
            (''favourite'', JObj [(''id'', JStr ''x'')])])
     ImageSchema =
     Inr \<lparr>valid = True, errors = []\<rparr>"
    by (simp add: validateAgainstSchema_object validateProperty_eq ImageSchema_def
        ImageSchema_favourite_def ImageSchema_breeds_def ImageSchema_vote_def
        entries_of_def Object_entries_names array_index_name digit_value_def
        missing_field_errors_def property_errors_def object_table_def Object_prototype_def
        read_property_def)
  from 1 2 3 show ?thesis by blast
qed

subsection \<open>Array-tagged properties\<close>

text \<open>
  C2, as the code has it. For a property whose schema is array-tagged, a value that is
  not an array gives exactly one error, \<^verbatim>\<open>Expected array but got\<close> followed by the
  \<^verbatim>\<open>typeof\<close> of the value; a value that is an array gives no error, whatever its
  elements and whatever element schema is declared.
\<close>

theorem C2_array_tag_checks_array_only:
  assumes "stype s = ''array''"
  shows "validateProperty v s =
           (if isArray v then [] else [''Expected array but got '' @ typeof v])"
  using assms by (simp add: validateProperty_eq)

theorem C2_witness:
  "validateProperty (JStr ''siamese'') ImageSchema_breeds = [''Expected array but got string''] \<and>
   validateProperty (JArr [JNum (Finite 1), JNull]) ImageSchema_breeds = []"
  using C2_array_tag_checks_array_only [of ImageSchema_breeds "JStr ''siamese''"]
    C2_array_tag_checks_array_only [of ImageSchema_breeds "JArr [JNum (Finite 1), JNull]"]
  by (simp add: ImageSchema_breeds_def)

text \<open>
  C2 as the specification states it fails on \<^verbatim>\<open>ImageSchema\<close>: \<^verbatim>\<open>breeds\<close> declares
  an element schema, an element has an error against it, and neither the property
  check nor the validation of the image reports it.
\<close>

theorem C2_counterexample:
  "items ImageSchema_breeds = Some ImageSchema_breeds_items \<and>
   validateAgainstSchema (JObj [(''id'', JNum (Finite 5))]) ImageSchema_breeds_items =
     Inr \<lparr>valid = False, errors = [''Expected string but got number'']\<rparr> \<and>
   validateProperty (JArr [JObj [(''id'', JNum (Finite 5))]]) ImageSchema_breeds = [] \<and>
   validateAgainstSchema
     (JObj [(''id'', JStr ''abc''), (''url'', JStr ''https://cdn2.thecatapi.com/images/abc.jpg''),
            (''width'', JNum (Finite 640)), (''height'', JNum (Finite 480)),
            (''breeds'', JArr [JObj [(''id'', JNum (Finite 5))]])])
     ImageSchema =
     Inr \<lparr>valid = True, errors = []\<rparr>"
proof -
  have 1: "items ImageSchema_breeds = Some ImageSchema_breeds_items"
    by (simp add: ImageSchema_breeds_def)
  have 2: "validateAgainstSchema (JObj [(''id'', JNum (Finite 5))]) ImageSchema_breeds_items =
     Inr \<lparr>valid = False, errors = [''Expected string but got number'']\<rparr>"
    by (simp add: validateAgainstSchema_object validateProperty_eq ImageSchema_breeds_items_def
        entries_of_def Object_entries_names array_index_name digit_value_def
        missing_field_errors_def property_errors_def object_table_def Object_prototype_def
        read_property_def)
  have 3: "validateProperty (JArr [JObj [(''id'', JNum (Finite 5))]]) ImageSchema_breeds = []"
    by (simp add: validateProperty_eq ImageSchema_breeds_def)
  have 4: "validateAgainstSchema
     (JObj [(''id'', JStr ''abc''), (''url'', JStr ''https://cdn2.thecatapi.com/images/abc.jpg''),
            (''width'', JNum (Finite 640)), (''height'', JNum (Finite 480)),
            (''breeds'', JArr [JObj [(''id'', JNum (Finite 5))]])])
     ImageSchema =
     Inr \<lparr>valid = True, errors = []\<rparr>"
    by (simp add: validateAgainstSchema_object validateProperty_eq ImageSchema_def
        ImageSchema_favourite_def ImageSchema_breeds_def ImageSchema_vote_def
        entries_of_def Object_entries_names array_index_name digit_value_def
        missing_field_errors_def property_errors_def object_table_def Object_prototype_def
        read_property_def)
  from 1 2 3 4 show ?thesis by blast
qed

subsection \<open>Primitive tags\<close>

text \<open>
  C3, as the code has it. For a property tagged \<^verbatim>\<open>string\<close>, \<^verbatim>\<open>integer\<close> or
  \<^verbatim>\<open>number\<close>, a value of the wrong kind gives exactly one error,
  \<^verbatim>\<open>Expected <tag> but got <typeof value>\<close>, and a value of the right kind gives none;
  the \<^verbatim>\<open>integer\<close> tag passes exactly the whole numbers. The tag \<^verbatim>\<open>boolean\<close> is not
  checked: no value gives an error. The kind in the message is \<^verbatim>\<open>typeof\<close>, which is
  \<^verbatim>\<open>object\<close> for an array.
\<close>

theorem C3_primitive_tags:
  assumes "stype s \<in> {''string'', ''integer'', ''number'', ''boolean''}"
  shows "validateProperty v s =
           (if stype s \<noteq> ''boolean'' \<and> \<not> spec_kind_matches (stype s) v
            then [''Expected '' @ stype s @ '' but got '' @ typeof v] else []) \<and>
         (stype s = ''integer'' \<longrightarrow> (validateProperty v s = [] \<longleftrightarrow> is_whole_number v)) \<and>
         (isArray v \<longrightarrow> typeof v = ''object'')"
proof -
  have int: "isInteger v = is_whole_number v"
    by (induction v rule: is_whole_number.induct) simp_all
  have str: "(typeof v = ''string'') = is_string v"
    by (cases v) simp_all
  have num: "(typeof v = ''number'') = is_number v"
    by (cases v) simp_all
  have arr: "isArray v \<Longrightarrow> typeof v = ''object''"
    by (cases v) simp_all
  show ?thesis
    using assms arr by (auto simp add: validateProperty_eq spec_kind_matches_def int str num)
qed

theorem C3_witness:
  "validateProperty (JNum (Finite (3 / 2))) (leaf ''integer'') =
     [''Expected integer but got number''] \<and>
   validateProperty (JNum (Finite 3)) (leaf ''integer'') = [] \<and>
   validateProperty JNull (leaf ''string'') = [''Expected string but got object''] \<and>
   validateProperty (JNum NaN) (leaf ''boolean'') = []"
proof -
  have "\<lfloor>(3::rat) / 2\<rfloor> = 1"
    by (simp add: floor_eq_iff)
  then have "\<not> is_whole_number (JNum (Finite (3 / 2)))"
    by simp
  then show ?thesis
    using C3_primitive_tags [of "leaf ''integer''" "JNum (Finite (3 / 2))"]
      C3_primitive_tags [of "leaf ''integer''" "JNum (Finite 3)"]
      C3_primitive_tags [of "leaf ''string''" JNull]
      C3_primitive_tags [of "leaf ''boolean''" "JNum NaN"]
    by (simp add: spec_kind_matches_def)
qed

text \<open>
  C3 as the specification states it fails twice: a string under the tag \<^verbatim>\<open>boolean\<close>
  gives no error, and an array under the tag \<^verbatim>\<open>string\<close> is reported as
  \<^verbatim>\<open>object\<close>.
\<close>

theorem C3_counterexample:
  "\<not> spec_kind_matches ''boolean'' (JStr ''yes'') \<and>
   validateProperty (JStr ''yes'') (leaf ''boolean'') = [] \<and>
   validateProperty (JArr []) (leaf ''string'') = [''Expected string but got object'']"
  by (simp add: spec_kind_matches_def validateProperty_eq)

subsection \<open>Soundness on conforming objects\<close>

lemma spec_conforms_validateProperty:
  assumes "spec_conforms v cs"
  shows "validateProperty v cs = []"
proof (cases cs)
  case (Schema t p r i)
  show ?thesis
  proof (cases v)
    case (JNum n)
    with assms Schema show ?thesis
      by (cases n) (auto simp add: validateProperty_eq spec_kind_matches_def split: if_splits)
  qed (use assms Schema in
        \<open>auto simp add: validateProperty_eq spec_kind_matches_def split: if_splits\<close>)
qed

lemma property_errors_empty:
  assumes "\<forall>(k, cs) \<in> set entries.
             k \<in> set (map fst t) \<longrightarrow> validateProperty (read_property t k) cs = []"
  shows "property_errors t entries = []"
  using assms by (induction entries) (auto simp add: property_errors_def)

lemma missing_field_errors_empty:
  assumes "\<forall>f \<in> set names. f \<in> set (map fst t)"
  shows "missing_field_errors t names = []"
  using assms by (induction names) (auto simp add: missing_field_errors_def)

text \<open>
  C4, as the code has it. For every object-tagged schema and every object on which
  \<^verbatim>\<open>in\<close> finds every required name and whose declared properties, where \<^verbatim>\<open>in\<close>
  finds them, have a value that conforms to the declared schema in the
  specification's sense, \<^verbatim>\<open>validateAgainstSchema\<close> returns \<^verbatim>\<open>valid == true\<close> and an
  empty error list. \<^verbatim>\<open>in\<close> finds own properties and those inherited from
  \<^verbatim>\<open>Object.prototype\<close>, and the value read is then the inherited member.
\<close>

theorem C4_conforming_object_is_valid:
  assumes "stype s = ''object''"
    and "\<forall>f \<in> set (entries_of (required s)). has_property (JObj ps) f = Inr True"
    and "\<forall>(k, cs) \<in> set (entries_of (properties s)).
           has_property (JObj ps) k = Inr True \<longrightarrow>
           spec_conforms (read_property (object_table ps) k) cs"
  shows "validateAgainstSchema (JObj ps) s = Inr \<lparr>valid = True, errors = []\<rparr>"
proof -
  have "missing_field_errors (object_table ps) (entries_of (required s)) = []"
    using assms(2) by (intro missing_field_errors_empty) (simp add: has_property_object)
  moreover have "property_errors (object_table ps)
      (Object_entries (entries_of (properties s))) = []"
    using assms(3)
    by (intro property_errors_empty)
       (auto simp add: set_Object_entries has_property_object
          dest: spec_conforms_validateProperty)
  ultimately show ?thesis
    using assms(1) by (simp add: validateAgainstSchema_object)
qed

theorem C4_witness:
  "validateAgainstSchema (JObj [(''id'', JNum (Finite 14)), (''name'', JStr ''funny'')])
     CategorySchema =
     Inr \<lparr>valid = True, errors = []\<rparr>"
  using C4_conforming_object_is_valid
    [of CategorySchema "[(''id'', JNum (Finite 14)), (''name'', JStr ''funny'')]"]
  by (simp add: CategorySchema_def entries_of_def has_property_def object_table_def
      Object_prototype_def read_property_def spec_kind_matches_def)

text \<open>
  C4 as the specification states it fails on a declared property that the object
  only inherits: the empty object has every required name (there is none) and no
  declared property of its own, and it is reported invalid, because
  \<^verbatim>\<open>'constructor' in {}\<close> holds and the inherited member is a function.
\<close>

theorem C4_counterexample:
  "''constructor'' \<notin> set (map fst ([] :: (string \<times> jsval) list)) \<and>
   has_property (JObj []) ''constructor'' = Inr True \<and>
   validateAgainstSchema (JObj [])
     (Schema ''object'' (Some [(''constructor'', leaf ''string'')]) None None) =
     Inr \<lparr>valid = False, errors = [''Expected string but got function'']\<rparr>"
  by (simp add: validateAgainstSchema_object validateProperty_eq has_property_def
      entries_of_def Object_entries_names array_index_name digit_value_def
      missing_field_errors_def property_errors_def object_table_def Object_prototype_def
      read_property_def)

subsection \<open>Missing required fields\<close>

lemma validateProperty_messages:
  "e \<in> set (validateProperty v s) \<Longrightarrow> hd e = CHR ''E''"
  by (auto simp add: validateProperty_eq split: if_splits)

lemma property_errors_messages:
  "e \<in> set (property_errors t entries) \<Longrightarrow> hd e = CHR ''E''"
  by (auto simp add: property_errors_def split: if_splits dest: validateProperty_messages)

lemma count_missing_field_errors:
  assumes "distinct names"
  shows "count_list (missing_field_errors t names) (''Missing required field: '' @ f) =
           (if f \<in> set names \<and> f \<notin> set (map fst t) then 1 else 0)"
  using assms
proof (induction names)
  case Nil
  then show ?case by (simp add: missing_field_errors_def)
next
  case (Cons n names)
  then show ?case by (auto simp add: missing_field_errors_def)
qed

lemma count_property_errors:
  "count_list (property_errors t entries) (''Missing required field: '' @ f) = 0"
proof -
  have "''Missing required field: '' @ f \<notin> set (property_errors t entries)"
    using property_errors_messages [of "''Missing required field: '' @ f" t entries] by auto
  then show ?thesis by (simp add: count_list_0_iff)
qed

text \<open>
  C7, as the code has it. For every object-tagged schema whose required names are
  distinct, and every object on which \<^verbatim>\<open>in\<close> does not find a required name \<open>f\<close>
  (it is neither an own property nor inherited from \<^verbatim>\<open>Object.prototype\<close>), the
  result is invalid, its error list is the messages of the required names not found,
  in the order of \<^verbatim>\<open>schema.required\<close>, followed by the messages of the declared
  properties, and the message \<^verbatim>\<open>Missing required field: f\<close> occurs in it exactly
  once.
\<close>

theorem C7_missing_required_field_reported_once:
  assumes "stype s = ''object''"
    and "required s = Some names"
    and "distinct names"
    and "f \<in> set names"
    and "has_property (JObj ps) f = Inr False"
  shows "validateAgainstSchema (JObj ps) s =
           Inr \<lparr>valid = False,
                errors = missing_field_errors (object_table ps) names @
                           property_errors (object_table ps)
                             (Object_entries (entries_of (properties s)))\<rparr> \<and>
         count_list
           (missing_field_errors (object_table ps) names @
              property_errors (object_table ps) (Object_entries (entries_of (properties s))))
           (''Missing required field: '' @ f) = 1 \<and>
         missing_field_errors (object_table ps) names =
           map (\<lambda>n. ''Missing required field: '' @ n)
             (filter (\<lambda>n. n \<notin> set (map fst (object_table ps))) names)"
proof -
  let ?p = "property_errors (object_table ps) (Object_entries (entries_of (properties s)))"
  have not_found: "f \<notin> set (map fst (object_table ps))"
    using assms(5) by (simp add: has_property_object)
  have "''Missing required field: '' @ f \<in> set (missing_field_errors (object_table ps) names)"
    using assms(4) not_found by (auto simp add: missing_field_errors_def)
  then have "missing_field_errors (object_table ps) names \<noteq> []" by auto
  then have 1: "validateAgainstSchema (JObj ps) s =
           Inr \<lparr>valid = False,
                errors = missing_field_errors (object_table ps) names @ ?p\<rparr>"
    using assms(1,2) by (simp add: validateAgainstSchema_object entries_of_def)
  define m where "m = ''Missing required field: '' @ f"
  have "count_list (missing_field_errors (object_table ps) names) m = 1"
    unfolding m_def
    using assms(3,4) not_found count_missing_field_errors [of names "object_table ps" f]
    by (simp only: if_True simp_thms)
  moreover have "count_list ?p m = 0"
    unfolding m_def by (rule count_property_errors)
  ultimately have "count_list (missing_field_errors (object_table ps) names @ ?p) m = 1"
    by simp
  then have 2: "count_list (missing_field_errors (object_table ps) names @ ?p)
      (''Missing required field: '' @ f) = 1"
    unfolding m_def .
  have 3: "missing_field_errors (object_table ps) names =
      map (\<lambda>n. ''Missing required field: '' @ n)
        (filter (\<lambda>n. n \<notin> set (map fst (object_table ps))) names)"
    by (simp add: missing_field_errors_def)
  from 1 2 3 show ?thesis by blast
qed

theorem C7_witness:
  "validateAgainstSchema (JObj [(''name'', JNum (Finite 3))]) CategorySchema =
     Inr \<lparr>valid = False,
          errors = [''Missing required field: id'', ''Expected string but got number'']\<rparr> \<and>
   count_list [''Missing required field: id'', ''Expected string but got number'']
     ''Missing required field: id'' = 1"
  using C7_missing_required_field_reported_once
    [of CategorySchema "[''id'', ''name'']" "''id''" "[(''name'', JNum (Finite 3))]"]
  by (simp add: CategorySchema_def entries_of_def Object_entries_CategorySchema
      has_property_def missing_field_errors_def property_errors_def object_table_def Object_prototype_def
      read_property_def validateProperty_eq)

text \<open>
  C7 as the specification states it fails on a required name that the object only
  inherits: the empty object has no property \<^verbatim>\<open>toString\<close> of its own, and it is
  reported valid, with no message, because \<^verbatim>\<open>'toString' in {}\<close> holds.
\<close>

theorem C7_counterexample:
  "''toString'' \<notin> set (map fst ([] :: (string \<times> jsval) list)) \<and>
   has_property (JObj []) ''toString'' = Inr True \<and>
   validateAgainstSchema (JObj []) (Schema ''object'' None (Some [''toString'']) None) =
     Inr \<lparr>valid = True, errors = []\<rparr>"
  by (simp add: validateAgainstSchema_object entries_of_def Object_entries_def has_property_def
      missing_field_errors_def property_errors_def object_table_def Object_prototype_def)

subsection \<open>The schema is only read\<close>

lemma required_loop_frame:
  "fr_schema (final_frame (required_loop names fr)) = fr_schema fr \<and>
   fr_value (final_frame (required_loop names fr)) = fr_value fr"
  by (induction names arbitrary: fr) (auto simp add: push_def split: sum.splits)

lemma properties_loop_frame:
  "fr_schema (final_frame (properties_loop entries fr)) = fr_schema fr \<and>
   fr_value (final_frame (properties_loop entries fr)) = fr_value fr"
  by (induction entries arbitrary: fr) (auto simp add: push_all_def split: option.splits)

lemma check_required_frame:
  "fr_schema (final_frame (check_required fr)) = fr_schema fr \<and>
   fr_value (final_frame (check_required fr)) = fr_value fr"
  by (simp add: check_required_def required_loop_frame split: option.splits)

lemma check_properties_frame:
  "fr_schema (final_frame (check_properties fr)) = fr_schema fr \<and>
   fr_value (final_frame (check_properties fr)) = fr_value fr"
  by (simp add: check_properties_def properties_loop_frame split: option.splits)

lemma validateAgainstSchema_body_frame:
  "fr_schema (final_frame (validateAgainstSchema_body fr)) = fr_schema fr"
proof (cases "check_required fr")
  case (Normal u fr1)
  then have 1: "fr_schema fr1 = fr_schema fr"
    using check_required_frame [of fr] by simp
  show ?thesis
  proof (cases "check_properties fr1")
    case (Normal u' fr2)
    then have "fr_schema fr2 = fr_schema fr1"
      using check_properties_frame [of fr1] by simp
    with 1 Normal \<open>check_required fr = Normal u fr1\<close> show ?thesis
      by (simp add: validateAgainstSchema_body_def return_result_def push_def Let_def)
  next
    case (Threw e fr2)
    then have "fr_schema fr2 = fr_schema fr1"
      using check_properties_frame [of fr1] by simp
    with 1 Threw \<open>check_required fr = Normal u fr1\<close> show ?thesis
      by (simp add: validateAgainstSchema_body_def return_result_def push_def Let_def)
  qed
next
  case (Threw e fr1)
  then have "fr_schema fr1 = fr_schema fr"
    using check_required_frame [of fr] by simp
  with Threw show ?thesis
    by (simp add: validateAgainstSchema_body_def return_result_def push_def Let_def)
qed

text \<open>
  C8. For every schema and every value, the frame in which the body of
  \<^verbatim>\<open>validateAgainstSchema\<close> ends, by a return or by a throw, holds the schema it
  started with, and so does the frame in which the body of \<^verbatim>\<open>validateProperty\<close>
  ends: the validator leaves its input schema as it was.
\<close>

theorem C8_schema_unchanged:
  "fr_schema (final_frame (validateAgainstSchema_body
      \<lparr>fr_value = response, fr_schema = schema, fr_errors = []\<rparr>)) = schema \<and>
   fr_schema (validateProperty_body
      \<lparr>fr_value = response, fr_schema = schema, fr_errors = []\<rparr>) = schema"
  by (simp add: validateAgainstSchema_body_frame validateProperty_body_def push_def)

theorem C8_witness:
  "fr_schema (final_frame (validateAgainstSchema_body
      \<lparr>fr_value = JObj [(''id'', JStr ''x'')], fr_schema = ImageSchema, fr_errors = []\<rparr>)) =
     ImageSchema \<and>
   fr_schema (final_frame (validateAgainstSchema_body
      \<lparr>fr_value = JNull, fr_schema = CategorySchema, fr_errors = []\<rparr>)) =
     CategorySchema \<and>
   fr_schema (validateProperty_body
      \<lparr>fr_value = JObj [(''id'', JStr ''x'')], fr_schema = ImageSchema, fr_errors = []\<rparr>) =
     ImageSchema"
  using C8_schema_unchanged [of "JObj [(''id'', JStr ''x'')]" ImageSchema]
    C8_schema_unchanged [of JNull CategorySchema]
  by simp

subsection \<open>Schemas that are not object-tagged\<close>

text \<open>
  C9. For every value and every schema whose tag is not \<^verbatim>\<open>object\<close>,
  \<^verbatim>\<open>validateAgainstSchema\<close> returns \<^verbatim>\<open>valid == true\<close> and an empty error list,
  whether or not the value matches the tag.
\<close>

theorem C9_non_object_schema_accepts_everything:
  assumes "stype s \<noteq> ''object''"
  shows "validateAgainstSchema v s = Inr \<lparr>valid = True, errors = []\<rparr>"
  using assms
  by (simp add: validateAgainstSchema_def validateAgainstSchema_body_def return_result_def)

theorem C9_witness:
  "validateAgainstSchema (JNum (Finite 7)) (leaf ''string'') =
     Inr \<lparr>valid = True, errors = []\<rparr> \<and>
   validateAgainstSchema (JStr ''x'') ImageSchema_breeds = Inr \<lparr>valid = True, errors = []\<rparr>"
  using C9_non_object_schema_accepts_everything [of "leaf ''string''" "JNum (Finite 7)"]
    C9_non_object_schema_accepts_everything [of ImageSchema_breeds "JStr ''x''"]
  by (simp add: ImageSchema_breeds_def)

subsection \<open>A null response\<close>

text \<open>
  C10 fails on the code. \<^verbatim>\<open>typeof null\<close> is \<^verbatim>\<open>object\<close>, so \<^verbatim>\<open>null\<close> passes the
  guard that rejects the other non-objects, and the first \<^verbatim>\<open>field in response\<close>
  throws a TypeError: on \<^verbatim>\<open>CategorySchema\<close> and on \<^verbatim>\<open>ImageSchema\<close> no result is
  returned for \<^verbatim>\<open>null\<close>, while \<^verbatim>\<open>undefined\<close> is rejected with a message.
\<close>

theorem C10_null_response_throws:
  "validateAgainstSchema JNull CategorySchema = Inl TypeError \<and>
   validateAgainstSchema JNull ImageSchema = Inl TypeError \<and>
   validateAgainstSchema JUndefined CategorySchema =
     Inr \<lparr>valid = False, errors = [''Expected object but got undefined'']\<rparr>"
  by (simp add: validateAgainstSchema_def validateAgainstSchema_body_def CategorySchema_def
      ImageSchema_def check_required_def has_property_def push_def)

section \<open>Properties of the request client\<close>






text \<open>
  C6. In every result that \<^verbatim>\<open>makeRequest\<close> returns, \<^verbatim>\<open>ok\<close> is exactly
  \<^verbatim>\<open>200 <= status < 300\<close>, and \<^verbatim>\<open>assertSuccess\<close> passes on it exactly when \<^verbatim>\<open>ok\<close>
  holds. The flag is the transport's \<^verbatim>\<open>ok()\<close>, taken here as the specification defines
  it.
\<close>

theorem C6_ok_is_status_in_2xx:
  assumes "makeRequest repr fetch this options = Inr r"
  shows "ok r = (200 \<le> status r \<and> status r < 300) \<and>
         assertSuccess r = (if ok r then Inr () else Inl AssertionError)"
proof -
  from assms obtain response where "status r = t_status response" and "ok r = t_ok response"
    by (auto simp add: makeRequest_def Let_def split: sum.splits)
  then show ?thesis
    by (auto simp add: t_ok_def assertSuccess_def)
qed

theorem C6_witness:
  "makeRequest (\<lambda>r. [])
     (\<lambda>req. Inr \<lparr>t_status = 404, t_statusText = ''Not Found'',
                  t_headers = [(''content-type'', ''text/plain'')],
                  t_json = Inl (TransportError ''not json''), t_text = Inr ''missing''\<rparr>)
     (new_APIClient None None)
     \<lparr>opt_method = ''GET'', opt_endpoint = ''/images/none'', opt_headers = None,
      opt_data = None, opt_params = None, opt_apiKey = None\<rparr> =
     Inr \<lparr>status = 404, statusText = ''Not Found'',
          headers = [(''content-type'', ''text/plain'')], body = JStr ''missing'', ok = False\<rparr> \<and>
   assertSuccess \<lparr>status = 404, statusText = ''Not Found'',
          headers = [(''content-type'', ''text/plain'')], body = JStr ''missing'', ok = False\<rparr> =
     Inl AssertionError"
proof -
  have run: "makeRequest (\<lambda>r. [])
     (\<lambda>req. Inr \<lparr>t_status = 404, t_statusText = ''Not Found'',
                  t_headers = [(''content-type'', ''text/plain'')],
                  t_json = Inl (TransportError ''not json''), t_text = Inr ''missing''\<rparr>)
     (new_APIClient None None)
     \<lparr>opt_method = ''GET'', opt_endpoint = ''/images/none'', opt_headers = None,
      opt_data = None, opt_params = None, opt_apiKey = None\<rparr> =
     Inr \<lparr>status = 404, statusText = ''Not Found'',
          headers = [(''content-type'', ''text/plain'')], body = JStr ''missing'', ok = False\<rparr>"
    by (simp add: makeRequest_def Let_def parseResponseBody_def t_ok_def)
  from C6_ok_is_status_in_2xx [OF run] run show ?thesis by simp
qed

end
